theory Spec2Isabelle
  imports Complex_Main
begin

section \<open>The Home page of the real-estate application (src/pages/Home.tsx)\<close>

text \<open>
  The page component keeps four pieces of React state (\<open>plots\<close>, \<open>loading\<close>,
  \<open>viewMode\<close>, \<open>selectedPlot\<close>), builds a query against the remote table of plots from
  the search filters, and renders the plots as a grid or as a map. The component is
  modelled by explicit state passing; every call of a state setter, of the remote store
  and of the console is also appended to a trace, so that the order of the effects of a
  handler can be stated.
\<close>

subsection \<open>JavaScript values\<close>

text \<open>
  A JavaScript \<open>number\<close>. The finite doubles are a subset of the reals and are compared
  as the reals are, so a finite number carries a real; the three special values are
  kept apart, since a comparison with \<open>NaN\<close> is false whichever way it is written.
\<close>

datatype number = Number real | Infinity | NegInfinity | NaN

text \<open>The operator \<open><\<close> on numbers.\<close>

fun js_lt :: "number \<Rightarrow> number \<Rightarrow> bool" where
  "js_lt (Number a) (Number b) = (a < b)"
| "js_lt (Number a) Infinity = True"
| "js_lt NegInfinity (Number b) = True"
| "js_lt NegInfinity Infinity = True"
| "js_lt _ _ = False"

text \<open>The operator \<open>>\<close> on numbers: \<open>a > b\<close> is \<open>b < a\<close>.\<close>

definition js_gt :: "number \<Rightarrow> number \<Rightarrow> bool" where
  "js_gt a b = js_lt b a"

text \<open>A string in a condition: the empty string is falsy, every other string truthy.\<close>

definition truthy :: "string \<Rightarrow> bool" where
  "truthy s = (s \<noteq> [])"

subsection \<open>The query builder of the remote store\<close>

text \<open>
  The query builder is the store's client library. A query is modelled by what the
  calls of the builder put into it: the table, the projection (the argument of
  \<open>select\<close>, with its nested relations), the filters in the order of the calls, and the
  ordering clauses. The argument of \<open>or\<close> is the filter string that the code hands to the
  library, as the code builds it.
\<close>

datatype projection =
    Star
  | Column string
  | Embed string string "projection list"

datatype predicate =
    EqF string string
  | GteF string number
  | LteF string number
  | OrF string

record query =
  table :: string
  columns :: "projection list"
  predicates :: "predicate list"
  order_by :: "(string \<times> bool) list"

definition from_q :: "string \<Rightarrow> query" where
  "from_q t = \<lparr>table = t, columns = [], predicates = [], order_by = []\<rparr>"

definition select_q :: "projection list \<Rightarrow> query \<Rightarrow> query" where
  "select_q cols q = q\<lparr>columns := cols\<rparr>"

definition eq_q :: "string \<Rightarrow> string \<Rightarrow> query \<Rightarrow> query" where
  "eq_q c v q = q\<lparr>predicates := predicates q @ [EqF c v]\<rparr>"

definition gte_q :: "string \<Rightarrow> number \<Rightarrow> query \<Rightarrow> query" where
  "gte_q c v q = q\<lparr>predicates := predicates q @ [GteF c v]\<rparr>"

definition lte_q :: "string \<Rightarrow> number \<Rightarrow> query \<Rightarrow> query" where
  "lte_q c v q = q\<lparr>predicates := predicates q @ [LteF c v]\<rparr>"

definition or_q :: "string \<Rightarrow> query \<Rightarrow> query" where
  "or_q s q = q\<lparr>predicates := predicates q @ [OrF s]\<rparr>"

text \<open>\<open>order(column, {ascending: b})\<close>.\<close>

definition order_q :: "string \<Rightarrow> bool \<Rightarrow> query \<Rightarrow> query" where
  "order_q c ascending q = q\<lparr>order_by := order_by q @ [(c, ascending)]\<rparr>"

text \<open>
  What the store answers to an awaited query: an object with \<open>data\<close> and \<open>error\<close>, each
  of which may be \<open>null\<close>, or a rejection of the promise (the \<open>await\<close> throws).
\<close>

datatype ('p, 'e) response =
    Resolved "'p list option" "'e option"
  | Rejected 'e

subsection \<open>The search filters\<close>

text \<open>
  Modelled from the spec: the interface \<open>SearchFilters\<close> is declared in
  components/Plots/SearchFilters, which is not part of the sources at hand. Its fields
  are the ones \<open>fetchPlots\<close> reads, with the types of the filter criteria of the
  specification: a search string, four numeric bounds, and the council identifier and
  the usage type as strings that are empty when not chosen.
\<close>

record SearchFilters =
  search :: string
  minPrice :: number
  maxPrice :: number
  minArea :: number
  maxArea :: number
  councilId :: string
  usageType :: string

subsection \<open>The state of the component and its effects\<close>

datatype view_mode = GridMode | MapMode

text \<open>
  The type of a plot (\<open>Plot\<close> of the module types) and the type of an error value are
  parameters.
\<close>

datatype ('p, 'e) effect =
    SetPlots "'p list"
  | SetLoading bool
  | SetViewMode view_mode
  | SetSelectedPlot "'p option"
  | Await query
  | ConsoleError 'e
  | ConsoleLog 'p

record ('p, 'e) home =
  plots :: "'p list"
  loading :: bool
  viewMode :: view_mode
  selectedPlot :: "'p option"
  effects :: "('p, 'e) effect list"

text \<open>The initial values of the four \<open>useState\<close> calls.\<close>

definition initial :: "('p, 'e) home" where
  "initial = \<lparr>plots = [], loading = True, viewMode = GridMode, selectedPlot = None,
     effects = []\<rparr>"

definition setPlots :: "'p list \<Rightarrow> ('p, 'e) home \<Rightarrow> ('p, 'e) home" where
  "setPlots ps w = w\<lparr>plots := ps, effects := effects w @ [SetPlots ps]\<rparr>"

definition setLoading :: "bool \<Rightarrow> ('p, 'e) home \<Rightarrow> ('p, 'e) home" where
  "setLoading b w = w\<lparr>loading := b, effects := effects w @ [SetLoading b]\<rparr>"

definition setViewMode :: "view_mode \<Rightarrow> ('p, 'e) home \<Rightarrow> ('p, 'e) home" where
  "setViewMode m w = w\<lparr>viewMode := m, effects := effects w @ [SetViewMode m]\<rparr>"

definition setSelectedPlot :: "'p option \<Rightarrow> ('p, 'e) home \<Rightarrow> ('p, 'e) home" where
  "setSelectedPlot p w = w\<lparr>selectedPlot := p, effects := effects w @ [SetSelectedPlot p]\<rparr>"

definition console_error :: "'e \<Rightarrow> ('p, 'e) home \<Rightarrow> ('p, 'e) home" where
  "console_error e w = w\<lparr>effects := effects w @ [ConsoleError e]\<rparr>"

definition console_log :: "'p \<Rightarrow> ('p, 'e) home \<Rightarrow> ('p, 'e) home" where
  "console_log p w = w\<lparr>effects := effects w @ [ConsoleLog p]\<rparr>"

text \<open>Awaiting a query: the request is sent, and the store's answer comes back.\<close>

definition await_q ::
  "(query \<Rightarrow> ('p, 'e) response) \<Rightarrow> query \<Rightarrow> ('p, 'e) home \<Rightarrow> ('p, 'e) home \<times> ('p, 'e) response"
where
  "await_q store q w = (w\<lparr>effects := effects w @ [Await q]\<rparr>, store q)"

subsection \<open>fetchPlots\<close>

text \<open>The query before the filters: table, projection and the status predicate.\<close>

definition plot_columns :: "projection list" where
  "plot_columns =
     [Star,
      Embed ''council'' ''councils''
        [Column ''id'', Column ''name'',
         Embed ''district'' ''districts''
           [Column ''id'', Column ''name'',
            Embed ''region'' ''regions'' [Column ''id'', Column ''name'']]]]"

definition base_query :: query where
  "base_query = eq_q ''status'' ''available'' (select_q plot_columns (from_q ''plots''))"

text \<open>The template literal handed to \<open>or\<close>.\<close>

definition search_filter :: "string \<Rightarrow> string" where
  "search_filter s = ''title.ilike.%'' @ s @ ''%,description.ilike.%'' @ s @ ''%''"

text \<open>The block \<open>if (filters) { ... }\<close>: seven conditions, in the order of the source.\<close>

definition apply_filters :: "SearchFilters option \<Rightarrow> query \<Rightarrow> query" where
  "apply_filters filters query =
     (case filters of
        None \<Rightarrow> query
      | Some f \<Rightarrow>
          (let q1 = (if truthy (search f) then or_q (search_filter (search f)) query else query);
               q2 = (if js_gt (minPrice f) (Number 0) then gte_q ''price'' (minPrice f) q1 else q1);
               q3 = (if js_lt (maxPrice f) (Number 10000000)
                     then lte_q ''price'' (maxPrice f) q2 else q2);
               q4 = (if js_gt (minArea f) (Number 0) then gte_q ''area_sqm'' (minArea f) q3 else q3);
               q5 = (if js_lt (maxArea f) (Number 10000)
                     then lte_q ''area_sqm'' (maxArea f) q4 else q4);
               q6 = (if truthy (councilId f) then eq_q ''council_id'' (councilId f) q5 else q5);
               q7 = (if truthy (usageType f) then eq_q ''usage_type'' (usageType f) q6 else q6)
           in q7))"

text \<open>The query that is awaited: the filtered query, newest plots first.\<close>

definition build_query :: "SearchFilters option \<Rightarrow> query" where
  "build_query filters = order_q ''created_at'' False (apply_filters filters base_query)"

text \<open>How a block of statements completes.\<close>

datatype 'e completion = Normal | Return | Throw 'e

text \<open>The body of the \<open>try\<close>.\<close>

definition try_block ::
  "(query \<Rightarrow> ('p, 'e) response) \<Rightarrow> SearchFilters option \<Rightarrow> ('p, 'e) home
     \<Rightarrow> ('p, 'e) home \<times> 'e completion"
where
  "try_block store filters w =
     (case await_q store (build_query filters) (setLoading True w) of
        (w1, Rejected e) \<Rightarrow> (w1, Throw e)
      | (w1, Resolved data error) \<Rightarrow>
          (case error of
             Some e \<Rightarrow> (console_error e w1, Return)
           | None \<Rightarrow> (setPlots (case data of None \<Rightarrow> [] | Some ps \<Rightarrow> ps) w1, Normal)))"

text \<open>The \<open>catch\<close> clause handles a throw of the body and completes normally.\<close>

definition catch_block :: "('p, 'e) home \<times> 'e completion \<Rightarrow> ('p, 'e) home \<times> 'e completion" where
  "catch_block r =
     (case r of
        (w, Throw e) \<Rightarrow> (console_error e w, Normal)
      | (w, c) \<Rightarrow> (w, c))"

text \<open>The \<open>finally\<close> clause runs on every completion and keeps it.\<close>

definition finally_block :: "('p, 'e) home \<times> 'e completion \<Rightarrow> ('p, 'e) home \<times> 'e completion" where
  "finally_block r = (case r of (w, c) \<Rightarrow> (setLoading False w, c))"

text \<open>
  The promise an async function returns: rejected with the error when the body throws,
  fulfilled otherwise.
\<close>

definition settle :: "'e completion \<Rightarrow> 'e + unit" where
  "settle c = (case c of Throw e \<Rightarrow> Inl e | _ \<Rightarrow> Inr ())"

definition fetchPlots ::
  "(query \<Rightarrow> ('p, 'e) response) \<Rightarrow> SearchFilters option \<Rightarrow> ('p, 'e) home
     \<Rightarrow> ('p, 'e) home \<times> ('e + unit)"
where
  "fetchPlots store filters w =
     (case finally_block (catch_block (try_block store filters w)) of
        (w', c) \<Rightarrow> (w', settle c))"

subsection \<open>The handlers and the rendering\<close>

definition handleFiltersChange ::
  "(query \<Rightarrow> ('p, 'e) response) \<Rightarrow> SearchFilters \<Rightarrow> ('p, 'e) home \<Rightarrow> ('p, 'e) home"
where
  "handleFiltersChange store filters w = fst (fetchPlots store (Some filters) w)"

definition handleViewDetails :: "'p \<Rightarrow> ('p, 'e) home \<Rightarrow> ('p, 'e) home" where
  "handleViewDetails plot w = console_log plot (setSelectedPlot (Some plot) w)"

definition handlePlotClick :: "'p \<Rightarrow> ('p, 'e) home \<Rightarrow> ('p, 'e) home" where
  "handlePlotClick plot w = setSelectedPlot (Some plot) w"

text \<open>
  What the component returns: the count in the header, which of the two toggle buttons
  is highlighted, and the content, which is the grid or the map.
\<close>

datatype 'p content = PlotGrid "'p list" bool | MapView "'p list"

record 'p view =
  found :: nat
  grid_active :: bool
  map_active :: bool
  content :: "'p content"

definition render :: "('p, 'e) home \<Rightarrow> 'p view" where
  "render w =
     \<lparr>found = length (plots w),
      grid_active = (viewMode w = GridMode),
      map_active = (viewMode w = MapMode),
      content = (if viewMode w = GridMode then PlotGrid (plots w) (loading w)
                 else MapView (plots w))\<rparr>"

subsection \<open>Reading a query and a trace\<close>

text \<open>The kinds of predicate the properties speak about.\<close>

fun is_lower_bound :: "string \<Rightarrow> predicate \<Rightarrow> bool" where
  "is_lower_bound c (GteF c' v) = (c = c')"
| "is_lower_bound c _ = False"

fun is_upper_bound :: "string \<Rightarrow> predicate \<Rightarrow> bool" where
  "is_upper_bound c (LteF c' v) = (c = c')"
| "is_upper_bound c _ = False"

fun is_text_match :: "predicate \<Rightarrow> bool" where
  "is_text_match (OrF s) = True"
| "is_text_match _ = False"

fun is_request :: "('p, 'e) effect \<Rightarrow> bool" where
  "is_request (Await q) = True"
| "is_request _ = False"

fun is_console_error :: "('p, 'e) effect \<Rightarrow> bool" where
  "is_console_error (ConsoleError e) = True"
| "is_console_error _ = False"

text \<open>The failure a response carries, if any, and the plots it delivers.\<close>

fun failure_of :: "('p, 'e) response \<Rightarrow> 'e option" where
  "failure_of (Resolved data error) = error"
| "failure_of (Rejected e) = Some e"

fun data_of :: "('p, 'e) response \<Rightarrow> 'p list" where
  "data_of (Resolved data error) = (case data of None \<Rightarrow> [] | Some ps \<Rightarrow> ps)"
| "data_of (Rejected e) = []"

subsection \<open>The or-filter as the store reads it\<close>

text \<open>
  Modelled from the documentation of the store's query language; the store and its
  client library are not part of the sources. The argument of \<open>or\<close> is a list of
  conditions separated by commas, where a comma inside double quotes or inside
  parentheses does not separate. A condition is \<open>column.operator.value\<close>: the column is
  the text before the first dot, the operator the text up to the next dot, the value
  the rest. A value that contains a reserved character has to be put in double quotes
  by the caller.
\<close>

datatype condition = Cond string string string

fun or_items_from :: "nat \<Rightarrow> bool \<Rightarrow> string \<Rightarrow> string \<Rightarrow> string list" where
  "or_items_from depth quoted item [] = [rev item]"
| "or_items_from depth quoted item (c # cs) =
     (if quoted then or_items_from depth (c \<noteq> CHR 0x22) (c # item) cs
      else if c = CHR 0x22 then or_items_from depth True (c # item) cs
      else if c = CHR ''('' then or_items_from (Suc depth) False (c # item) cs
      else if c = CHR '')'' then or_items_from (depth - 1) False (c # item) cs
      else if c = CHR '','' \<and> depth = 0 then rev item # or_items_from 0 False [] cs
      else or_items_from depth False (c # item) cs)"

definition or_items :: "string \<Rightarrow> string list" where
  "or_items s = or_items_from 0 False [] s"

definition parse_condition :: "string \<Rightarrow> condition option" where
  "parse_condition item =
     (let column = takeWhile (\<lambda>c. c \<noteq> CHR ''.'') item;
          rest = dropWhile (\<lambda>c. c \<noteq> CHR ''.'') item
      in case rest of
           [] \<Rightarrow> None
         | _ # rest1 \<Rightarrow>
             (let operator = takeWhile (\<lambda>c. c \<noteq> CHR ''.'') rest1;
                  rest2 = dropWhile (\<lambda>c. c \<noteq> CHR ''.'') rest1
              in case rest2 of
                   [] \<Rightarrow> None
                 | _ # val \<Rightarrow>
                     if column = [] \<or> operator = [] then None
                     else Some (Cond column operator val)))"

text \<open>The conditions of an or-filter; \<open>None\<close> when an item is not a condition.\<close>

definition or_conditions :: "string \<Rightarrow> condition list option" where
  "or_conditions s = those (map parse_condition (or_items s))"

fun text_conditions_of :: "predicate \<Rightarrow> condition list option" where
  "text_conditions_of (OrF s) = or_conditions s"
| "text_conditions_of _ = None"

text \<open>The text-match predicates of a query, each as the store reads it.\<close>

definition text_conditions :: "query \<Rightarrow> condition list option list" where
  "text_conditions q = map text_conditions_of (filter is_text_match (predicates q))"

text \<open>
  The text match in the words of the specification: a case-insensitive partial match
  of the search text against the title or the description, that is, \<open>ilike\<close> with the
  text between two wildcards on either column.
\<close>

definition partial_match_spec :: "string \<Rightarrow> condition list" where
  "partial_match_spec s =
     [Cond ''title'' ''ilike'' (''%'' @ s @ ''%''),
      Cond ''description'' ''ilike'' (''%'' @ s @ ''%'')]"

text \<open>
  Text without a character that the query language reserves (comma, dot, colon,
  parentheses, double quote, backslash) or that is a wildcard of the pattern
  (\<open>%\<close>, \<open>_\<close>, \<open>*\<close>).
\<close>

definition plain :: "string \<Rightarrow> bool" where
  "plain s =
     list_all (\<lambda>c. c \<noteq> CHR '','' \<and> c \<noteq> CHR ''.'' \<and> c \<noteq> CHR '':'' \<and> c \<noteq> CHR ''('' \<and>
       c \<noteq> CHR '')'' \<and> c \<noteq> CHR 0x22 \<and> c \<noteq> CHR 0x5C \<and> c \<noteq> CHR ''%'' \<and> c \<noteq> CHR ''_'' \<and>
       c \<noteq> CHR ''*'') s"

subsection \<open>The effect hook and the view toggle\<close>

text \<open>The values that the dependency list of an effect hook of this component can hold.\<close>

datatype 'p dep =
    DepPlots "'p list"
  | DepLoading bool
  | DepViewMode view_mode
  | DepSelectedPlot "'p option"

text \<open>The dependency list of the effect hook of lines 16 to 18: the empty list.\<close>

definition fetch_deps :: "('p, 'e) home \<Rightarrow> 'p dep list" where
  "fetch_deps w = []"

text \<open>
  After a render the hook runs its effect, \<open>fetchPlots()\<close> without filters, when the
  render is the first one (there is no state before) and when its dependency list
  differs from the one of the render before.
\<close>

definition useEffect ::
  "(query \<Rightarrow> ('p, 'e) response) \<Rightarrow> ('p, 'e) home option \<Rightarrow> ('p, 'e) home \<Rightarrow> ('p, 'e) home"
where
  "useEffect store prev w =
     (case prev of
        None \<Rightarrow> fst (fetchPlots store None w)
      | Some p \<Rightarrow>
          if fetch_deps p = fetch_deps w then w else fst (fetchPlots store None w))"

text \<open>Mounting the component: the first render, and the hook after it.\<close>

definition mount :: "(query \<Rightarrow> ('p, 'e) response) \<Rightarrow> ('p, 'e) home" where
  "mount store = useEffect store None initial"

text \<open>
  The two buttons of the view toggle (lines 124 to 143): the handler calls
  \<open>setViewMode\<close>, the component renders again, and the hook is consulted.
\<close>

definition click_grid :: "(query \<Rightarrow> ('p, 'e) response) \<Rightarrow> ('p, 'e) home \<Rightarrow> ('p, 'e) home" where
  "click_grid store w = useEffect store (Some w) (setViewMode GridMode w)"

definition click_map :: "(query \<Rightarrow> ('p, 'e) response) \<Rightarrow> ('p, 'e) home \<Rightarrow> ('p, 'e) home" where
  "click_map store w = useEffect store (Some w) (setViewMode MapMode w)"

section \<open>Properties\<close>

subsection \<open>The query and the result of a fetch, in closed form\<close>

lemma predicates_build_query:
  "predicates (build_query filters) =
     EqF ''status'' ''available'' #
     (case filters of
        None \<Rightarrow> []
      | Some f \<Rightarrow>
          (if truthy (search f) then [OrF (search_filter (search f))] else []) @
          (if js_gt (minPrice f) (Number 0) then [GteF ''price'' (minPrice f)] else []) @
          (if js_lt (maxPrice f) (Number 10000000) then [LteF ''price'' (maxPrice f)] else []) @
          (if js_gt (minArea f) (Number 0) then [GteF ''area_sqm'' (minArea f)] else []) @
          (if js_lt (maxArea f) (Number 10000) then [LteF ''area_sqm'' (maxArea f)] else []) @
          (if truthy (councilId f) then [EqF ''council_id'' (councilId f)] else []) @
          (if truthy (usageType f) then [EqF ''usage_type'' (usageType f)] else []))"
  by (simp add: build_query_def apply_filters_def base_query_def order_q_def eq_q_def
      gte_q_def lte_q_def or_q_def select_q_def from_q_def Let_def split: option.split)

lemma order_by_build_query: "order_by (build_query filters) = [(''created_at'', False)]"
  by (simp add: build_query_def apply_filters_def base_query_def order_q_def eq_q_def
      gte_q_def lte_q_def or_q_def select_q_def from_q_def Let_def split: option.split)

lemma fetchPlots_eq:
  "fetchPlots store filters w =
     (w\<lparr>plots := (case failure_of (store (build_query filters)) of
                    None \<Rightarrow> data_of (store (build_query filters))
                  | Some e \<Rightarrow> plots w),
        loading := False,
        effects := effects w @
          [SetLoading True, Await (build_query filters)] @
          (case failure_of (store (build_query filters)) of
             None \<Rightarrow> [SetPlots (data_of (store (build_query filters)))]
           | Some e \<Rightarrow> [ConsoleError e]) @
          [SetLoading False]\<rparr>,
      Inr ())"
  by (cases "store (build_query filters)")
     (simp_all add: fetchPlots_def finally_block_def catch_block_def try_block_def await_q_def
      setLoading_def setPlots_def console_error_def settle_def split: option.split)

lemma js_lt_asym: "js_lt a b \<Longrightarrow> \<not> js_lt b a"
  by (cases a; cases b) simp_all

text \<open>The hook runs on mounting and sends the unfiltered query; a click does not run it.\<close>

lemma mount_requests:
  "filter is_request (effects (mount store)) = [Await (build_query None)]"
  by (simp add: mount_def useEffect_def fetchPlots_eq initial_def split: option.split)

lemma click_eq:
  "click_grid store w = setViewMode GridMode w"
  "click_map store w = setViewMode MapMode w"
  by (simp_all add: click_grid_def click_map_def useEffect_def fetch_deps_def)

text \<open>The text-match predicate as a string, and as the store reads it for plain text.\<close>

lemma build_query_text_match:
  "filter is_text_match (predicates (build_query (Some f))) =
     (if search f = [] then []
      else [OrF (''title.ilike.%'' @ search f @ ''%,description.ilike.%'' @ search f @ ''%'')])"
  by (simp add: predicates_build_query truthy_def search_filter_def)

lemma or_items_from_plain:
  "plain s \<Longrightarrow> or_items_from d False item (s @ rest) = or_items_from d False (rev s @ item) rest"
  by (induction s arbitrary: item) (simp_all add: plain_def)

lemma or_items_search_filter:
  assumes "plain s"
  shows "or_items (search_filter s) =
    [''title.ilike.%'' @ s @ ''%'', ''description.ilike.%'' @ s @ ''%'']"
proof -
  have "or_items (search_filter s) =
      or_items_from 0 False (rev ''title.ilike.%'') (s @ ''%,description.ilike.%'' @ s @ ''%'')"
    by (simp add: or_items_def search_filter_def)
  also have "\<dots> = or_items_from 0 False (rev s @ rev ''title.ilike.%'')
      (''%,description.ilike.%'' @ s @ ''%'')"
    using assms by (rule or_items_from_plain)
  also have "\<dots> = (''title.ilike.%'' @ s @ ''%'') #
      or_items_from 0 False (rev ''description.ilike.%'') (s @ ''%'')"
    by simp
  also have "or_items_from 0 False (rev ''description.ilike.%'') (s @ ''%'') =
      or_items_from 0 False (rev s @ rev ''description.ilike.%'') ''%''"
    using assms by (rule or_items_from_plain)
  also have "\<dots> = [''description.ilike.%'' @ s @ ''%'']"
    by simp
  finally show ?thesis .
qed

lemma text_conditions_empty:
  "search f = [] \<Longrightarrow> text_conditions (build_query (Some f)) = []"
  by (simp add: text_conditions_def predicates_build_query truthy_def)

lemma text_conditions_plain:
  "search f \<noteq> [] \<Longrightarrow> plain (search f) \<Longrightarrow>
     text_conditions (build_query (Some f)) = [Some (partial_match_spec (search f))]"
  by (simp add: text_conditions_def predicates_build_query truthy_def or_conditions_def
      or_items_search_filter parse_condition_def partial_match_spec_def)

subsection \<open>Loading the plots\<close>

text \<open>
  Claim C1. When the store reports a failure for the awaited query, be it an \<open>error\<close>
  in the answer or a rejection of the promise, \<open>fetchPlots\<close> leaves \<open>plots\<close> as it was
  (empty when the call starts from the initial state), ends with \<open>loading = False\<close>, and
  its promise is fulfilled, not rejected. The only effects of the call are the two calls
  of \<open>setLoading\<close>, the request, and one \<open>console.error\<close> with the failure.
\<close>

theorem fetchPlots_failure:
  "failure_of (store (build_query filters)) = Some e \<Longrightarrow>
     plots (fst (fetchPlots store filters w)) = plots w \<and>
     loading (fst (fetchPlots store filters w)) = False \<and>
     snd (fetchPlots store filters w) = Inr () \<and>
     effects (fst (fetchPlots store filters w)) =
       effects w @ [SetLoading True, Await (build_query filters), ConsoleError e,
         SetLoading False] \<and>
     plots (fst (fetchPlots store filters (initial :: ('p, 'e) home))) = []"
  by (simp add: fetchPlots_eq initial_def)

theorem fetchPlots_failure_witness:
  "failure_of ((\<lambda>q. Resolved None (Some (500::nat))) (build_query None)) = Some 500 \<and>
   plots (fst (fetchPlots (\<lambda>q. Resolved None (Some (500::nat))) None
     (setPlots [1, 2] (initial :: (nat, nat) home)))) = [1, 2] \<and>
   loading (fst (fetchPlots (\<lambda>q. Resolved None (Some (500::nat))) None
     (setPlots [1, 2] (initial :: (nat, nat) home)))) = False \<and>
   snd (fetchPlots (\<lambda>q. Resolved None (Some (500::nat))) None
     (setPlots [1, 2] (initial :: (nat, nat) home))) = Inr () \<and>
   failure_of ((\<lambda>q. Rejected (7::nat) :: (nat, nat) response) (build_query None)) = Some 7 \<and>
   plots (fst (fetchPlots (\<lambda>q. Rejected (7::nat)) None
     (setPlots [1, 2] (initial :: (nat, nat) home)))) = [1, 2] \<and>
   loading (fst (fetchPlots (\<lambda>q. Rejected (7::nat)) None
     (setPlots [1, 2] (initial :: (nat, nat) home)))) = False \<and>
   snd (fetchPlots (\<lambda>q. Rejected (7::nat)) None
     (setPlots [1, 2] (initial :: (nat, nat) home))) = Inr ()"
  using
    fetchPlots_failure [of "\<lambda>q. Resolved None (Some (500::nat))" None 500
      "setPlots [1, 2] (initial :: (nat, nat) home)"]
    fetchPlots_failure [of "\<lambda>q. Rejected (7::nat) :: (nat, nat) response" None 7
      "setPlots [1, 2] (initial :: (nat, nat) home)"]
  by (simp add: setPlots_def initial_def)

text \<open>
  Claim C2. Every call of \<open>fetchPlots\<close> calls \<open>setLoading(true)\<close> first and sends the
  request after it; whatever the store answers (data, an error, or a rejection), the
  last effect of the call is \<open>setLoading(false)\<close>, the final state has
  \<open>loading = False\<close>, and the promise is fulfilled. The store is a function from the
  query to a settled answer: a request that never settles is not a completion of the
  call.
\<close>

theorem fetchPlots_loading:
  "effects (fst (fetchPlots store filters w)) =
     effects w @ [SetLoading True, Await (build_query filters)] @
     (case failure_of (store (build_query filters)) of
        None \<Rightarrow> [SetPlots (data_of (store (build_query filters)))]
      | Some e \<Rightarrow> [ConsoleError e]) @
     [SetLoading False] \<and>
   loading (fst (fetchPlots store filters w)) = False \<and>
   snd (fetchPlots store filters w) = Inr ()"
  by (simp add: fetchPlots_eq)

theorem fetchPlots_loading_witness:
  "effects (fst (fetchPlots (\<lambda>q. Rejected (7::nat)) None (initial :: (nat, nat) home))) =
     [SetLoading True, Await (build_query None), ConsoleError 7, SetLoading False] \<and>
   loading (fst (fetchPlots (\<lambda>q. Rejected (7::nat)) None (initial :: (nat, nat) home))) = False \<and>
   effects (fst (fetchPlots (\<lambda>q. Resolved (Some [3, 4]) None) None
     (initial :: (nat, nat) home))) =
     [SetLoading True, Await (build_query None), SetPlots [3, 4], SetLoading False] \<and>
   loading (fst (fetchPlots (\<lambda>q. Resolved (Some [3, 4]) None) None
     (initial :: (nat, nat) home))) = False"
  using
    fetchPlots_loading [of "\<lambda>q. Rejected (7::nat)" None "initial :: (nat, nat) home"]
    fetchPlots_loading [of "\<lambda>q. Resolved (Some [3, 4]) None" None "initial :: (nat, nat) home"]
  by (simp add: initial_def)

subsection \<open>From the filters to the query\<close>

text \<open>
  Claim C3. For all search filters, the query has an upper bound on \<open>price\<close> exactly
  when \<open>maxPrice < 10000000\<close>, and then it is the one predicate \<open>price \<le> maxPrice\<close>; it
  has an upper bound on \<open>area_sqm\<close> exactly when \<open>maxArea < 10000\<close>, and then it is
  \<open>area_sqm \<le> maxArea\<close>. The comparison is the one of JavaScript. The evaluation after
  the theorem is at \<open>maxPrice = 9999999\<close> (bound present) and at
  \<open>maxPrice = 10000000\<close> (no bound).
\<close>

theorem build_query_upper_bounds:
  "filter (is_upper_bound ''price'') (predicates (build_query (Some f))) =
     (if js_lt (maxPrice f) (Number 10000000) then [LteF ''price'' (maxPrice f)] else []) \<and>
   filter (is_upper_bound ''area_sqm'') (predicates (build_query (Some f))) =
     (if js_lt (maxArea f) (Number 10000) then [LteF ''area_sqm'' (maxArea f)] else [])"
  by (simp add: predicates_build_query)

theorem build_query_upper_bounds_witness:
  "filter (is_upper_bound ''price'') (predicates (build_query (Some
      \<lparr>search = '''', minPrice = Number 0, maxPrice = Number 9999999, minArea = Number 0,
       maxArea = Number 9999, councilId = '''', usageType = ''''\<rparr>))) =
     [LteF ''price'' (Number 9999999)] \<and>
   filter (is_upper_bound ''area_sqm'') (predicates (build_query (Some
      \<lparr>search = '''', minPrice = Number 0, maxPrice = Number 9999999, minArea = Number 0,
       maxArea = Number 9999, councilId = '''', usageType = ''''\<rparr>))) =
     [LteF ''area_sqm'' (Number 9999)] \<and>
   filter (is_upper_bound ''price'') (predicates (build_query (Some
      \<lparr>search = '''', minPrice = Number 0, maxPrice = Number 10000000, minArea = Number 0,
       maxArea = Number 10000, councilId = '''', usageType = ''''\<rparr>))) = [] \<and>
   filter (is_upper_bound ''area_sqm'') (predicates (build_query (Some
      \<lparr>search = '''', minPrice = Number 0, maxPrice = Number 10000000, minArea = Number 0,
       maxArea = Number 10000, councilId = '''', usageType = ''''\<rparr>))) = []"
  using
    build_query_upper_bounds [of
      "\<lparr>search = '''', minPrice = Number 0, maxPrice = Number 9999999, minArea = Number 0,
        maxArea = Number 9999, councilId = '''', usageType = ''''\<rparr>"]
    build_query_upper_bounds [of
      "\<lparr>search = '''', minPrice = Number 0, maxPrice = Number 10000000, minArea = Number 0,
        maxArea = Number 10000, councilId = '''', usageType = ''''\<rparr>"]
  by simp

text \<open>
  Claim C4. For all search filters, the query has a lower bound on \<open>price\<close> exactly
  when \<open>minPrice > 0\<close>, and then it is the one predicate \<open>price \<ge> minPrice\<close>; it has a
  lower bound on \<open>area_sqm\<close> exactly when \<open>minArea > 0\<close>, and then it is
  \<open>area_sqm \<ge> minArea\<close>. The evaluation after the theorem is at \<open>minPrice = 0\<close>, where
  the query has no lower bound on the price.
\<close>

theorem build_query_lower_bounds:
  "filter (is_lower_bound ''price'') (predicates (build_query (Some f))) =
     (if js_gt (minPrice f) (Number 0) then [GteF ''price'' (minPrice f)] else []) \<and>
   filter (is_lower_bound ''area_sqm'') (predicates (build_query (Some f))) =
     (if js_gt (minArea f) (Number 0) then [GteF ''area_sqm'' (minArea f)] else [])"
  by (simp add: predicates_build_query)

theorem build_query_lower_bounds_witness:
  "filter (is_lower_bound ''price'') (predicates (build_query (Some
      \<lparr>search = '''', minPrice = Number 0, maxPrice = Number 10000000, minArea = Number 250,
       maxArea = Number 10000, councilId = '''', usageType = ''''\<rparr>))) = [] \<and>
   filter (is_lower_bound ''area_sqm'') (predicates (build_query (Some
      \<lparr>search = '''', minPrice = Number 0, maxPrice = Number 10000000, minArea = Number 250,
       maxArea = Number 10000, councilId = '''', usageType = ''''\<rparr>))) =
     [GteF ''area_sqm'' (Number 250)]"
  using
    build_query_lower_bounds [of
      "\<lparr>search = '''', minPrice = Number 0, maxPrice = Number 10000000, minArea = Number 250,
        maxArea = Number 10000, councilId = '''', usageType = ''''\<rparr>"]
  by (simp add: js_gt_def)

text \<open>
  Claim C5: with an empty search string the query has no text-match predicate, and
  with a non-empty search string it has a case-insensitive partial match of that string
  against the title or the description. The first half holds (\<open>text_conditions_empty\<close>),
  and so does the second for plain text (\<open>text_conditions_plain\<close>). The code puts the
  search text into the filter string as it is, without quoting it, so the second half
  fails for a text with a reserved character. For the search text \<open>a,b\<close> the filter
  string is \<open>title.ilike.%a,b%,description.ilike.%a,b%\<close>; the store reads four items
  in it, two of which (\<open>b%\<close>) are no conditions, and not the two conditions of a partial
  match of \<open>a,b\<close>. For the search text \<open>beach\<close> the same computation gives the two
  conditions.
\<close>

theorem build_query_text_match_reserved:
  "filter is_text_match (predicates (build_query (Some
      \<lparr>search = ''a,b'', minPrice = Number 0, maxPrice = Number 10000000, minArea = Number 0,
       maxArea = Number 10000, councilId = '''', usageType = ''''\<rparr>))) =
     [OrF ''title.ilike.%a,b%,description.ilike.%a,b%''] \<and>
   or_items ''title.ilike.%a,b%,description.ilike.%a,b%'' =
     [''title.ilike.%a'', ''b%'', ''description.ilike.%a'', ''b%''] \<and>
   text_conditions (build_query (Some
      \<lparr>search = ''a,b'', minPrice = Number 0, maxPrice = Number 10000000, minArea = Number 0,
       maxArea = Number 10000, councilId = '''', usageType = ''''\<rparr>)) = [None] \<and>
   text_conditions (build_query (Some
      \<lparr>search = ''a,b'', minPrice = Number 0, maxPrice = Number 10000000, minArea = Number 0,
       maxArea = Number 10000, councilId = '''', usageType = ''''\<rparr>)) \<noteq>
     [Some (partial_match_spec ''a,b'')] \<and>
   text_conditions (build_query (Some
      \<lparr>search = ''beach'', minPrice = Number 0, maxPrice = Number 10000000, minArea = Number 0,
       maxArea = Number 10000, councilId = '''', usageType = ''''\<rparr>)) =
     [Some (partial_match_spec ''beach'')]"
  by (simp add: text_conditions_def predicates_build_query truthy_def search_filter_def
      or_conditions_def or_items_def parse_condition_def partial_match_spec_def)

text \<open>
  Claim C6. With every field of the filters at its default (empty strings, minimums
  \<open>0\<close>, maximums \<open>10000000\<close> and \<open>10000\<close>) the query has the single predicate
  \<open>status = available\<close> and is ordered by \<open>created_at\<close>, descending; it is the very
  query built when the filters are absent, and it is the one request that \<open>fetchPlots\<close>
  sends in either case.
\<close>

theorem build_query_defaults:
  "predicates (build_query (Some
      \<lparr>search = '''', minPrice = Number 0, maxPrice = Number 10000000, minArea = Number 0,
       maxArea = Number 10000, councilId = '''', usageType = ''''\<rparr>)) =
     [EqF ''status'' ''available''] \<and>
   order_by (build_query (Some
      \<lparr>search = '''', minPrice = Number 0, maxPrice = Number 10000000, minArea = Number 0,
       maxArea = Number 10000, councilId = '''', usageType = ''''\<rparr>)) =
     [(''created_at'', False)] \<and>
   predicates (build_query None) = [EqF ''status'' ''available''] \<and>
   order_by (build_query None) = [(''created_at'', False)] \<and>
   build_query (Some
      \<lparr>search = '''', minPrice = Number 0, maxPrice = Number 10000000, minArea = Number 0,
       maxArea = Number 10000, councilId = '''', usageType = ''''\<rparr>) = build_query None \<and>
   filter is_request (effects (fst (fetchPlots store (Some
      \<lparr>search = '''', minPrice = Number 0, maxPrice = Number 10000000, minArea = Number 0,
       maxArea = Number 10000, councilId = '''', usageType = ''''\<rparr>) w))) =
     filter is_request (effects w) @ [Await (build_query None)] \<and>
   filter is_request (effects (fst (fetchPlots store None w))) =
     filter is_request (effects w) @ [Await (build_query None)]"
proof -
  let ?d = "\<lparr>search = '''', minPrice = Number 0, maxPrice = Number 10000000,
    minArea = Number 0, maxArea = Number 10000, councilId = '''', usageType = ''''\<rparr>"
  have same: "build_query (Some ?d) = build_query None"
    by (simp add: build_query_def apply_filters_def truthy_def js_gt_def)
  have preds: "predicates (build_query None) = [EqF ''status'' ''available'']"
    by (simp add: predicates_build_query)
  have ord: "order_by (build_query None) = [(''created_at'', False)]"
    by (rule order_by_build_query)
  have req: "filter is_request (effects (fst (fetchPlots store fs w))) =
      filter is_request (effects w) @ [Await (build_query fs)]" for fs
    by (simp add: fetchPlots_eq split: option.split)
  from same preds ord req [of "Some ?d"] req [of None] show ?thesis
    by simp
qed

subsection \<open>The result of a fetch\<close>

text \<open>
  Claim C7. When the store answers without an error, \<open>fetchPlots\<close> replaces \<open>plots\<close>
  by the data of the answer, the empty list when the data is \<open>null\<close>; it ends with
  \<open>loading = False\<close>, its promise is fulfilled, and nothing is written to
  \<open>console.error\<close>. In particular an empty answer gives \<open>plots = []\<close> and is no error.
\<close>

theorem fetchPlots_success:
  "store (build_query filters) = Resolved data None \<Longrightarrow>
     plots (fst (fetchPlots store filters w)) = (case data of None \<Rightarrow> [] | Some ps \<Rightarrow> ps) \<and>
     loading (fst (fetchPlots store filters w)) = False \<and>
     snd (fetchPlots store filters w) = Inr () \<and>
     filter is_console_error (effects (fst (fetchPlots store filters w))) =
       filter is_console_error (effects w)"
  by (simp add: fetchPlots_eq)

theorem fetchPlots_success_witness:
  "(\<lambda>q. Resolved (Some []) None :: (nat, nat) response) (build_query None) =
     Resolved (Some []) None \<and>
   plots (fst (fetchPlots (\<lambda>q. Resolved (Some []) None) None
     (setPlots [1, 2] (initial :: (nat, nat) home)))) = [] \<and>
   loading (fst (fetchPlots (\<lambda>q. Resolved (Some []) None) None
     (setPlots [1, 2] (initial :: (nat, nat) home)))) = False \<and>
   (\<lambda>q. Resolved None None :: (nat, nat) response) (build_query None) = Resolved None None \<and>
   plots (fst (fetchPlots (\<lambda>q. Resolved None None) None
     (setPlots [1, 2] (initial :: (nat, nat) home)))) = [] \<and>
   (\<lambda>q. Resolved (Some [3, 4]) None :: (nat, nat) response) (build_query None) =
     Resolved (Some [3, 4]) None \<and>
   plots (fst (fetchPlots (\<lambda>q. Resolved (Some [3, 4]) None) None
     (setPlots [1, 2] (initial :: (nat, nat) home)))) = [3, 4]"
  using
    fetchPlots_success [of "\<lambda>q. Resolved (Some []) None :: (nat, nat) response" None "Some []"
      "setPlots [1, 2] (initial :: (nat, nat) home)"]
    fetchPlots_success [of "\<lambda>q. Resolved None None :: (nat, nat) response" None None
      "setPlots [1, 2] (initial :: (nat, nat) home)"]
    fetchPlots_success [of "\<lambda>q. Resolved (Some [3, 4]) None :: (nat, nat) response" None
      "Some [3, 4]" "setPlots [1, 2] (initial :: (nat, nat) home)"]
  by simp

text \<open>
  Claim C8. Calling \<open>fetchPlots\<close> twice with the same filters against the same store
  gives the same \<open>plots\<close> (and the same \<open>loading\<close>, \<open>viewMode\<close> and \<open>selectedPlot\<close>) as
  calling it once. When the store delivers data, the plots after the second call are
  that data and nothing else; when it fails, they are the plots from before the first
  call.
\<close>

theorem fetchPlots_idempotent:
  "plots (fst (fetchPlots store filters (fst (fetchPlots store filters w)))) =
     plots (fst (fetchPlots store filters w)) \<and>
   loading (fst (fetchPlots store filters (fst (fetchPlots store filters w)))) =
     loading (fst (fetchPlots store filters w)) \<and>
   viewMode (fst (fetchPlots store filters (fst (fetchPlots store filters w)))) =
     viewMode (fst (fetchPlots store filters w)) \<and>
   selectedPlot (fst (fetchPlots store filters (fst (fetchPlots store filters w)))) =
     selectedPlot (fst (fetchPlots store filters w)) \<and>
   plots (fst (fetchPlots store filters (fst (fetchPlots store filters w)))) =
     (case failure_of (store (build_query filters)) of
        None \<Rightarrow> data_of (store (build_query filters))
      | Some e \<Rightarrow> plots w)"
  by (simp add: fetchPlots_eq split: option.split)

theorem fetchPlots_idempotent_witness:
  "plots (fst (fetchPlots (\<lambda>q. Resolved (Some [3, 4]) None) None
     (fst (fetchPlots (\<lambda>q. Resolved (Some [3, 4]) None) None
       (setPlots [1, 2] (initial :: (nat, nat) home)))))) = [3, 4] \<and>
   plots (fst (fetchPlots (\<lambda>q. Resolved None (Some (500::nat))) None
     (fst (fetchPlots (\<lambda>q. Resolved None (Some (500::nat))) None
       (setPlots [1, 2] (initial :: (nat, nat) home)))))) = [1, 2]"
proof -
  note last = conjunct2 [THEN conjunct2, THEN conjunct2, THEN conjunct2]
  have "plots (fst (fetchPlots (\<lambda>q. Resolved (Some [3, 4]) None) None
     (fst (fetchPlots (\<lambda>q. Resolved (Some [3, 4]) None) None
       (setPlots [1, 2] (initial :: (nat, nat) home)))))) = [3, 4]"
    using fetchPlots_idempotent [of "\<lambda>q. Resolved (Some [3, 4]) None" None
      "setPlots [1, 2] (initial :: (nat, nat) home)", THEN last]
    by simp
  moreover have "plots (fst (fetchPlots (\<lambda>q. Resolved None (Some (500::nat))) None
     (fst (fetchPlots (\<lambda>q. Resolved None (Some (500::nat))) None
       (setPlots [1, 2] (initial :: (nat, nat) home)))))) = [1, 2]"
    using fetchPlots_idempotent [of "\<lambda>q. Resolved None (Some (500::nat))" None
      "setPlots [1, 2] (initial :: (nat, nat) home)", THEN last]
    by (simp add: setPlots_def)
  ultimately show ?thesis by simp
qed

subsection \<open>The view mode\<close>

text \<open>
  Claim C9, as stated for every state of the component, does not hold:
  \<open>setViewMode\<close> stores the mode it is given, so \<open>setViewMode('map')\<close> followed by
  \<open>setViewMode('grid')\<close> always ends in the grid, which is not the rendering a state in
  map mode started from. The state reached by one click on the map button is such a
  state.
\<close>

theorem setViewMode_map_grid_counterexample:
  "render (setViewMode GridMode (setViewMode MapMode
      (setViewMode MapMode (initial :: (nat, nat) home)))) \<noteq>
   render (setViewMode MapMode (initial :: (nat, nat) home))"
  by (simp add: render_def setViewMode_def initial_def)

text \<open>
  Claim C9, amended. From every state, a click on the map button followed by a click
  on the grid button does what \<open>setViewMode('map')\<close> followed by \<open>setViewMode('grid')\<close>
  does and nothing more: the effect hook, whose dependency list is empty, does not run
  on the two renders, so no request is sent. The sequence ends with \<open>viewMode = grid\<close>
  and leaves \<open>plots\<close>, \<open>loading\<close> and \<open>selectedPlot\<close> unchanged; the page then renders as
  the starting state does in grid mode, and it renders as the starting state itself if
  and only if that state was in grid mode.
\<close>

theorem setViewMode_map_grid:
  "click_grid store (click_map store w) = setViewMode GridMode (setViewMode MapMode w) \<and>
   viewMode (click_grid store (click_map store w)) = GridMode \<and>
   plots (click_grid store (click_map store w)) = plots w \<and>
   loading (click_grid store (click_map store w)) = loading w \<and>
   selectedPlot (click_grid store (click_map store w)) = selectedPlot w \<and>
   effects (click_grid store (click_map store w)) =
     effects w @ [SetViewMode MapMode, SetViewMode GridMode] \<and>
   filter is_request (effects (click_grid store (click_map store w))) =
     filter is_request (effects w) \<and>
   render (click_grid store (click_map store w)) = render (w\<lparr>viewMode := GridMode\<rparr>) \<and>
   (render (click_grid store (click_map store w)) = render w) = (viewMode w = GridMode) \<and>
   (render (setViewMode GridMode (setViewMode MapMode w)) = render w) = (viewMode w = GridMode)"
  by (auto simp add: click_eq render_def setViewMode_def)

theorem setViewMode_map_grid_witness:
  "viewMode (initial :: (nat, nat) home) = GridMode \<and>
   render (click_grid (\<lambda>q. Resolved (Some [3, 4]) None)
     (click_map (\<lambda>q. Resolved (Some [3, 4]) None) (initial :: (nat, nat) home))) =
     render (initial :: (nat, nat) home) \<and>
   filter is_request (effects (click_grid (\<lambda>q. Resolved (Some [3, 4]) None)
     (click_map (\<lambda>q. Resolved (Some [3, 4]) None) (initial :: (nat, nat) home)))) = [] \<and>
   viewMode (setViewMode MapMode (initial :: (nat, nat) home)) \<noteq> GridMode \<and>
   render (click_grid (\<lambda>q. Resolved (Some [3, 4]) None)
     (click_map (\<lambda>q. Resolved (Some [3, 4]) None)
       (setViewMode MapMode (initial :: (nat, nat) home)))) \<noteq>
     render (setViewMode MapMode (initial :: (nat, nat) home))"
  using
    setViewMode_map_grid [of "\<lambda>q. Resolved (Some [3, 4]) None" "initial :: (nat, nat) home"]
    setViewMode_map_grid [of "\<lambda>q. Resolved (Some [3, 4]) None"
      "setViewMode MapMode (initial :: (nat, nat) home)"]
  by (simp add: initial_def setViewMode_def)

subsection \<open>Bounds beyond the sentinel\<close>

text \<open>
  Claim C10. A minimum below \<open>0\<close> and a maximum above its ceiling (\<open>10000000\<close> for the
  price, \<open>10000\<close> for the area) give no predicate for that bound either: the code tests
  \<open>min > 0\<close> and \<open>max < ceiling\<close>, not equality with the sentinel.
\<close>

theorem build_query_beyond_sentinel:
  "(js_lt (minPrice f) (Number 0) \<longrightarrow>
      filter (is_lower_bound ''price'') (predicates (build_query (Some f))) = []) \<and>
   (js_lt (minArea f) (Number 0) \<longrightarrow>
      filter (is_lower_bound ''area_sqm'') (predicates (build_query (Some f))) = []) \<and>
   (js_gt (maxPrice f) (Number 10000000) \<longrightarrow>
      filter (is_upper_bound ''price'') (predicates (build_query (Some f))) = []) \<and>
   (js_gt (maxArea f) (Number 10000) \<longrightarrow>
      filter (is_upper_bound ''area_sqm'') (predicates (build_query (Some f))) = [])"
  by (auto simp add: predicates_build_query js_gt_def dest: js_lt_asym)

theorem build_query_beyond_sentinel_witness:
  "js_lt (Number (- 1)) (Number 0) \<and>
   js_lt (Number (- 50)) (Number 0) \<and>
   js_gt (Number 10000001) (Number 10000000) \<and>
   js_gt Infinity (Number 10000) \<and>
   filter (is_lower_bound ''price'') (predicates (build_query (Some
      \<lparr>search = '''', minPrice = Number (- 1), maxPrice = Number 10000001,
       minArea = Number (- 50), maxArea = Infinity, councilId = '''', usageType = ''''\<rparr>))) = [] \<and>
   filter (is_lower_bound ''area_sqm'') (predicates (build_query (Some
      \<lparr>search = '''', minPrice = Number (- 1), maxPrice = Number 10000001,
       minArea = Number (- 50), maxArea = Infinity, councilId = '''', usageType = ''''\<rparr>))) = [] \<and>
   filter (is_upper_bound ''price'') (predicates (build_query (Some
      \<lparr>search = '''', minPrice = Number (- 1), maxPrice = Number 10000001,
       minArea = Number (- 50), maxArea = Infinity, councilId = '''', usageType = ''''\<rparr>))) = [] \<and>
   filter (is_upper_bound ''area_sqm'') (predicates (build_query (Some
      \<lparr>search = '''', minPrice = Number (- 1), maxPrice = Number 10000001,
       minArea = Number (- 50), maxArea = Infinity, councilId = '''', usageType = ''''\<rparr>))) = []"
  using
    build_query_beyond_sentinel [of
      "\<lparr>search = '''', minPrice = Number (- 1), maxPrice = Number 10000001,
        minArea = Number (- 50), maxArea = Infinity, councilId = '''', usageType = ''''\<rparr>"]
  by (simp add: js_gt_def)

end
